theory Spec2Isabelle
  imports Complex_Main "HOL-Library.Char_ord" "HOL-Library.List_Lexorder" "HOL-Library.Multiset"
begin

section \<open>The Monte Carlo projection engine of the fantasy-sports backend\<close>

text \<open>
  A shallow embedding of \<^verbatim>\<open>app/ml/monte_carlo.py\<close> (the simulator and its confidence
  interval estimator), of the cache operations of \<^verbatim>\<open>app/services/redis_service.py\<close>
  it calls, and of \<^verbatim>\<open>generate_cache_key\<close> and \<^verbatim>\<open>simulate_lineup_task\<close> of
  \<^verbatim>\<open>app/workers/simulation_tasks.py\<close>.

  Conventions. A Python exception is a value of type \<open>exn\<close>, and a function that may raise
  returns \<open>exn + 'a\<close> (\<open>Inl\<close> the exception). A finite float is the real number it stands
  for (rounding is not modelled) and numpy's not-a-number is the separate value \<open>NaN\<close>.
  Library collaborators are parameters: the generator's \<^verbatim>\<open>normal\<close> draw, scipy's
  \<^verbatim>\<open>norm.ppf\<close>, \<^verbatim>\<open>cpu_count()\<close>, the largest array \<^verbatim>\<open>np.zeros\<close> allocates, the
  clock, MD5 and the data preprocessor.
\<close>

subsection \<open>Floats, exceptions\<close>

datatype npfloat = Fin real | NaN

datatype exn =
    ValidationError string nat
  | SimulationError string nat
  | IntegrationError string nat
  | PythonError string

text \<open>Float arithmetic: a NaN operand gives NaN. The only division of the modelled code
  is \<^verbatim>\<open>np.std(a) / np.sqrt(len(a))\<close>, whose divisor is 0 only for the empty array,
  where the numerator is NaN already; \<open>fdiv\<close> gives NaN for every zero divisor.\<close>

fun fadd :: "npfloat \<Rightarrow> npfloat \<Rightarrow> npfloat" where
  "fadd (Fin a) (Fin b) = Fin (a + b)"
| "fadd _ _ = NaN"

fun fsub :: "npfloat \<Rightarrow> npfloat \<Rightarrow> npfloat" where
  "fsub (Fin a) (Fin b) = Fin (a - b)"
| "fsub _ _ = NaN"

fun fmul :: "npfloat \<Rightarrow> npfloat \<Rightarrow> npfloat" where
  "fmul (Fin a) (Fin b) = Fin (a * b)"
| "fmul _ _ = NaN"

fun fdiv :: "npfloat \<Rightarrow> npfloat \<Rightarrow> npfloat" where
  "fdiv (Fin a) (Fin b) = (if b = 0 then NaN else Fin (a / b))"
| "fdiv _ _ = NaN"


fun flt :: "npfloat \<Rightarrow> npfloat \<Rightarrow> bool" where
  "flt (Fin a) (Fin b) = (a < b)"
| "flt _ _ = False"

subsection \<open>numpy's mean and standard deviation\<close>

text \<open>\<^verbatim>\<open>np.mean\<close> and \<^verbatim>\<open>np.std\<close> (default \<^verbatim>\<open>ddof=0\<close>) of a one-dimensional float
  array. On the empty array both warn and return NaN; neither raises.\<close>

definition np_mean :: "real list \<Rightarrow> npfloat" where
  "np_mean a = (if a = [] then NaN else Fin (sum_list a / real (length a)))"

definition sq_dev :: "real list \<Rightarrow> real" where
  "sq_dev a = sum_list (map (\<lambda>x. (x - sum_list a / real (length a))\<^sup>2) a)"

definition np_std :: "real list \<Rightarrow> npfloat" where
  "np_std a = (if a = [] then NaN else Fin (sqrt (sq_dev a / real (length a))))"

definition np_sqrt :: "real \<Rightarrow> npfloat" where
  "np_sqrt x = Fin (sqrt x)"

text \<open>The sample standard deviation of the specification's wording (divide by \<open>n - 1\<close>
  when \<open>n > 1\<close>, and 0 for \<open>n = 1\<close>), for comparison with \<open>np_std\<close>.\<close>

definition spec_sample_std :: "real list \<Rightarrow> real" where
  "spec_sample_std a =
     (if length a > 1 then sqrt (sq_dev a / (real (length a) - 1)) else 0)"

subsection \<open>The confidence interval estimator\<close>

definition CONFIDENCE_INTERVAL :: real where
  "CONFIDENCE_INTERVAL = 95 / 100"

text \<open>The two shapes in which the repository calls \<^verbatim>\<open>calculate_confidence_interval\<close>:
  both arguments positional (the simulator, line 140), or the array positional and the
  level by keyword or left to its default (the tests).\<close>

datatype ci_call =
    Positional "real list" real
  | Keyword "real list" "real option"

datatype pyval = NdArray "real list" | PyFloat real

fun call_args :: "ci_call \<Rightarrow> pyval list" where
  "call_args (Positional a c) = [NdArray a, PyFloat c]"
| "call_args (Keyword a c) = [NdArray a]"

fun simulation_results_of :: "ci_call \<Rightarrow> real list" where
  "simulation_results_of (Positional a c) = a"
| "simulation_results_of (Keyword a c) = a"

fun confidence_level_of :: "ci_call \<Rightarrow> real" where
  "confidence_level_of (Positional a c) = c"
| "confidence_level_of (Keyword a (Some c)) = c"
| "confidence_level_of (Keyword a None) = CONFIDENCE_INTERVAL"

fun is_list_or_ndarray :: "pyval \<Rightarrow> bool" where
  "is_list_or_ndarray (NdArray a) = True"
| "is_list_or_ndarray (PyFloat x) = False"

text \<open>The decorator \<^verbatim>\<open>validate_input\<close>: it inspects \<^verbatim>\<open>args[1]\<close> of the positional
  arguments, which for the module-level function it decorates is the confidence level.\<close>

definition validate_input :: "(ci_call \<Rightarrow> exn + 'a) \<Rightarrow> ci_call \<Rightarrow> exn + 'a" where
  "validate_input func call =
     (if length (call_args call) > 1 \<and> \<not> is_list_or_ndarray (call_args call ! 1)
      then Inl (SimulationError ''Invalid input data type'' 3010)
      else func call)"

text \<open>The body of \<^verbatim>\<open>calculate_confidence_interval\<close> (lines 251-257). On a float array
  none of its calls raises, so its \<^verbatim>\<open>except\<close> branch (code 3014) is never taken.\<close>

definition ci_body :: "(real \<Rightarrow> npfloat) \<Rightarrow> ci_call \<Rightarrow> exn + (npfloat \<times> npfloat)" where
  "ci_body ppf call =
     (let simulation_results = simulation_results_of call;
          confidence_level = confidence_level_of call;
          mean = np_mean simulation_results;
          std_error = fdiv (np_std simulation_results)
                           (np_sqrt (real (length simulation_results)));
          z_score = ppf ((1 + confidence_level) / 2);
          margin = fmul z_score std_error
      in Inr (fsub mean margin, fadd mean margin))"

definition calculate_confidence_interval ::
  "(real \<Rightarrow> npfloat) \<Rightarrow> ci_call \<Rightarrow> exn + (npfloat \<times> npfloat)" where
  "calculate_confidence_interval ppf = validate_input (ci_body ppf)"

subsection \<open>The sampling engine\<close>

text \<open>A generator of type \<open>'g\<close> with its \<^verbatim>\<open>normal(loc, scale)\<close> draw, which returns the
  sample and the advanced generator. A player's data is the sequence
  \<^verbatim>\<open>player['data']['points']\<close> of historical point values.\<close>

type_synonym 'g sampler = "'g \<Rightarrow> npfloat \<Rightarrow> npfloat \<Rightarrow> npfloat \<times> 'g"

text \<open>Python's \<^verbatim>\<open>max(0, points)\<close>: \<^verbatim>\<open>points\<close> when \<^verbatim>\<open>points > 0\<close>, else 0 (so 0 for NaN).\<close>

fun py_max0 :: "npfloat \<Rightarrow> real" where
  "py_max0 (Fin x) = (if x > 0 then x else 0)"
| "py_max0 NaN = 0"

text \<open>The inner loop over the players of one trial (lines 219-225).\<close>

fun sample_players :: "'g sampler \<Rightarrow> 'g \<Rightarrow> real list list \<Rightarrow> real list \<times> 'g" where
  "sample_players draw g [] = ([], g)"
| "sample_players draw g (player # rest) =
     (let mean_points = np_mean player;
          std_points = np_std player;
          (points, g1) = draw g mean_points std_points;
          (player_points, g2) = sample_players draw g1 rest
      in (py_max0 points # player_points, g2))"

text \<open>The outer loop \<^verbatim>\<open>for i in range(n_simulations)\<close> (lines 218-226).\<close>

fun run_trials :: "'g sampler \<Rightarrow> 'g \<Rightarrow> real list list \<Rightarrow> nat \<Rightarrow> real list \<times> 'g" where
  "run_trials draw g player_data 0 = ([], g)"
| "run_trials draw g player_data (Suc k) =
     (let (player_points, g1) = sample_players draw g player_data;
          (results, g2) = run_trials draw g1 player_data k
      in (sum_list player_points # results, g2))"

text \<open>\<^verbatim>\<open>_simulate_single_lineup\<close>: \<^verbatim>\<open>np.zeros\<close> raises for a negative length and for a
  length beyond \<open>zeros_max\<close>, the largest array it allocates on the machine; the method's
  \<^verbatim>\<open>except\<close> turns either into error 3013.\<close>

definition simulate_single_lineup ::
  "'g sampler \<Rightarrow> nat \<Rightarrow> 'g \<Rightarrow> real list list \<Rightarrow> int \<Rightarrow> exn + real list" where
  "simulate_single_lineup draw zeros_max g player_data n_simulations =
     (if n_simulations < 0 \<or> int zeros_max < n_simulations
      then Inl (SimulationError ''Single lineup simulation failed'' 3013)
      else Inr (fst (run_trials draw g player_data (nat n_simulations))))"

subsection \<open>The sampling engine of the specification\<close>



subsection \<open>The parallel trial executor\<close>

text \<open>\<^verbatim>\<open>Pool.starmap(simulation_func, data_chunks)\<close>. The function the simulator passes
  is its bound method \<^verbatim>\<open>self._simulate_single_lineup\<close>; to send a task to a worker the pool
  pickles it and with it \<^verbatim>\<open>self\<close>, whose field \<^verbatim>\<open>_process_pool\<close> is the pool itself, and
  a pool refuses to be pickled (\<^verbatim>\<open>NotImplementedError\<close>). So the call raises as soon as
  there is a task, and no worker runs the function; with no task it returns the empty
  list.\<close>

definition starmap ::
  "(real list list \<Rightarrow> int \<Rightarrow> exn + real list) \<Rightarrow> (real list list \<times> int) list \<Rightarrow>
   exn + real list list" where
  "starmap simulation_func data_chunks =
     (case data_chunks of
        [] \<Rightarrow> Inr []
      | task # rest \<Rightarrow> Inl (PythonError ''NotImplementedError''))"

text \<open>\<^verbatim>\<open>_parallel_simulate\<close>: whatever the pool raises becomes error 3012.\<close>

definition parallel_simulate ::
  "(real list list \<Rightarrow> int \<Rightarrow> exn + real list) \<Rightarrow> (real list list \<times> int) list \<Rightarrow>
   exn + real list list" where
  "parallel_simulate simulation_func data_chunks =
     (case starmap simulation_func data_chunks of
        Inl e \<Rightarrow> Inl (SimulationError ''Parallel simulation execution failed'' 3012)
      | Inr results \<Rightarrow> Inr results)"

subsection \<open>Results and the cache service\<close>

text \<open>The result dictionary of the simulator. The key \<^verbatim>\<open>cached\<close> is absent (\<open>None\<close>)
  from the dictionaries the simulator builds; the worker task adds it.\<close>

record sim_result =
  expected_points :: npfloat
  standard_deviation :: npfloat
  ci_lower :: npfloat
  ci_upper :: npfloat
  ci_level :: real
  simulations_run :: int
  timestamp :: string
  cached :: "bool option"

text \<open>A \<^verbatim>\<open>RedisService\<close> instance with the server behind it: the instance's
  \<^verbatim>\<open>_healthy\<close> flag, whether the server answers (a \<^verbatim>\<open>redis.RedisError\<close> otherwise) and
  the entries it holds. Entries are result dictionaries (JSON serialisation is the
  identity on them, and a stored dictionary is never empty, hence truthy); expiry after
  the time-to-live is not modelled. \<^verbatim>\<open>get\<close> and \<^verbatim>\<open>set\<close> are what the awaited
  methods return or raise: a call on an unhealthy instance raises at once, a
  \<^verbatim>\<open>redis.RedisError\<close> marks the instance unhealthy and is raised as
  \<^verbatim>\<open>IntegrationError\<close> (default code 6000; the message is modelled without the text of
  the underlying error).\<close>

record redis_service =
  healthy :: bool
  server_up :: bool
  entries :: "string \<Rightarrow> sim_result option"

definition RedisService :: "redis_service \<Rightarrow> redis_service" where
  "RedisService server = server\<lparr>healthy := True\<rparr>"

definition redis_get ::
  "redis_service \<Rightarrow> string \<Rightarrow> (exn + sim_result option) \<times> redis_service" where
  "redis_get r key =
     (if \<not> healthy r then (Inl (IntegrationError ''Redis service is unhealthy'' 6000), r)
      else if \<not> server_up r
      then (Inl (IntegrationError ''Redis get operation failed'' 6000), r\<lparr>healthy := False\<rparr>)
      else (Inr (entries r key), r))"

definition redis_set ::
  "redis_service \<Rightarrow> string \<Rightarrow> sim_result \<Rightarrow> nat \<Rightarrow> (exn + bool) \<times> redis_service" where
  "redis_set r key val ttl =
     (if \<not> healthy r then (Inl (IntegrationError ''Redis service is unhealthy'' 6000), r)
      else if \<not> server_up r
      then (Inl (IntegrationError ''Redis set operation failed'' 6000), r\<lparr>healthy := False\<rparr>)
      else (Inr True, r\<lparr>entries := (entries r)(key := Some val)\<rparr>))"

subsection \<open>The simulator\<close>

text \<open>What the module takes from its surroundings: \<^verbatim>\<open>cpu_count()\<close>, the largest length
  \<^verbatim>\<open>np.zeros\<close> allocates, scipy's \<^verbatim>\<open>norm.ppf\<close>, the generator's draw, \<^verbatim>\<open>default_rng\<close>,
  the clock, the preprocessing collaborator (which may raise) and MD5's hex digest.\<close>

record 'g env =
  cpu_count :: nat
  np_zeros_max :: nat
  norm_ppf :: "real \<Rightarrow> npfloat"
  rng_normal :: "'g sampler"
  default_rng :: "int option \<Rightarrow> 'g"
  utcnow :: string
  preprocess_player_data :: "string \<Rightarrow> exn + real list"
  md5_hexdigest :: "string \<Rightarrow> string"

record 'g simulator =
  rng :: 'g
  cache_enabled :: bool

definition MonteCarloSimulator :: "'g env \<Rightarrow> int option \<Rightarrow> bool \<Rightarrow> 'g simulator" where
  "MonteCarloSimulator env random_seed cache_flag =
     \<lparr>rng = default_rng env random_seed, cache_enabled = cache_flag\<rparr>"

definition SIMULATION_CACHE_PREFIX :: string where
  "SIMULATION_CACHE_PREFIX = ''monte_carlo_sim:''"

definition SIMULATION_CACHE_TTL :: nat where
  "SIMULATION_CACHE_TTL = 3600"

definition MAX_PARALLEL_PROCESSES :: "'g env \<Rightarrow> nat" where
  "MAX_PARALLEL_PROCESSES env = min 4 (cpu_count env)"

text \<open>Python's \<^verbatim>\<open>sep.join(parts)\<close>.\<close>

fun join :: "string \<Rightarrow> string list \<Rightarrow> string" where
  "join sep [] = []"
| "join sep [x] = x"
| "join sep (x # y # ys) = x @ sep @ join sep (y # ys)"

text \<open>The simulator's cache key (line 109): the identifiers in the caller's order.\<close>

definition lineup_cache_key :: "string list \<Rightarrow> string" where
  "lineup_cache_key player_ids = SIMULATION_CACHE_PREFIX @ ''lineup:'' @ join ''_'' player_ids"

text \<open>The loop of lines 119-122; a raising preprocessor ends it.\<close>

fun preprocess_all :: "(string \<Rightarrow> exn + real list) \<Rightarrow> string list \<Rightarrow> exn + real list list" where
  "preprocess_all pre [] = Inr []"
| "preprocess_all pre (player_id # rest) =
     (case pre player_id of
        Inl e \<Rightarrow> Inl e
      | Inr d \<Rightarrow>
          (case preprocess_all pre rest of
             Inl e \<Rightarrow> Inl e
           | Inr ds \<Rightarrow> Inr (d # ds)))"

text \<open>Lines 125-126: \<^verbatim>\<open>[n_simulations // w] * w\<close> for \<open>w\<close> the process count.\<close>

definition simulation_chunks :: "int \<Rightarrow> nat \<Rightarrow> int list" where
  "simulation_chunks n_simulations w = replicate w (n_simulations div int w)"

text \<open>Lines 157-165: the cache write and the return, inside the \<^verbatim>\<open>try\<close> block.\<close>

definition cache_results ::
  "bool \<Rightarrow> redis_service \<Rightarrow> string \<Rightarrow> sim_result \<Rightarrow> (exn + sim_result) \<times> redis_service" where
  "cache_results cache_flag r cache_key result =
     (if cache_flag
      then (case redis_set r cache_key result SIMULATION_CACHE_TTL of
              (Inl e, r1) \<Rightarrow> (Inl e, r1)
            | (Inr ok, r1) \<Rightarrow> (Inr result, r1))
      else (Inr result, r))"

text \<open>Lines 136-137 and 145-155: the mean and the standard deviation of the pooled
  outcomes and the result dictionary, for the interval \<open>ci\<close> of line 140.\<close>

definition result_dict :: "real list \<Rightarrow> npfloat \<times> npfloat \<Rightarrow> int \<Rightarrow> string \<Rightarrow> sim_result" where
  "result_dict combined_results ci n_simulations now =
     (let mean_points = np_mean combined_results;
          std_points = np_std combined_results
      in \<lparr>expected_points = mean_points,
          standard_deviation = std_points,
          ci_lower = fst ci,
          ci_upper = snd ci,
          ci_level = CONFIDENCE_INTERVAL,
          simulations_run = n_simulations,
          timestamp = now,
          cached = None\<rparr>)"

text \<open>The body of the \<^verbatim>\<open>try\<close> block (lines 118-165), an exception raised in it as
  \<open>Inl\<close>.\<close>

definition try_block ::
  "'g env \<Rightarrow> 'g simulator \<Rightarrow> redis_service \<Rightarrow> string \<Rightarrow> string list \<Rightarrow> int \<Rightarrow>
   (exn + sim_result) \<times> redis_service" where
  "try_block env self r cache_key player_ids n_simulations =
     (case preprocess_all (preprocess_player_data env) player_ids of
        Inl e \<Rightarrow> (Inl e, r)
      | Inr player_data \<Rightarrow>
          if MAX_PARALLEL_PROCESSES env = 0 then (Inl (PythonError ''ZeroDivisionError''), r)
          else
            (case parallel_simulate
                    (simulate_single_lineup (rng_normal env) (np_zeros_max env) (rng self))
                    (map (\<lambda>chunk. (player_data, chunk))
                       (simulation_chunks n_simulations (MAX_PARALLEL_PROCESSES env))) of
               Inl e \<Rightarrow> (Inl e, r)
             | Inr simulation_results \<Rightarrow>
                 (let combined_results = concat simulation_results
                  in case calculate_confidence_interval (norm_ppf env)
                            (Positional combined_results CONFIDENCE_INTERVAL) of
                       Inl e \<Rightarrow> (Inl e, r)
                     | Inr ci \<Rightarrow>
                         cache_results (cache_enabled self) r cache_key
                           (result_dict combined_results ci n_simulations (utcnow env)))))"

text \<open>The \<^verbatim>\<open>except Exception\<close> of lines 167-173.\<close>

fun reraise_3011 :: "(exn + sim_result) \<times> redis_service \<Rightarrow> (exn + sim_result) \<times> redis_service" where
  "reraise_3011 (Inl e, r) = (Inl (SimulationError ''Failed to simulate lineup performance'' 3011), r)"
| "reraise_3011 (Inr res, r) = (Inr res, r)"

text \<open>\<^verbatim>\<open>simulate_lineup_performance\<close>: the cache read stands before the \<^verbatim>\<open>try\<close>.\<close>

definition simulate_lineup_performance ::
  "'g env \<Rightarrow> 'g simulator \<Rightarrow> redis_service \<Rightarrow> string list \<Rightarrow> int \<Rightarrow> bool \<Rightarrow>
   (exn + sim_result) \<times> redis_service" where
  "simulate_lineup_performance env self r player_ids n_simulations force_refresh =
     (let cache_key = lineup_cache_key player_ids
      in if cache_enabled self \<and> \<not> force_refresh
         then (case redis_get r cache_key of
                 (Inl e, r1) \<Rightarrow> (Inl e, r1)
               | (Inr (Some cached_result), r1) \<Rightarrow> (Inr cached_result, r1)
               | (Inr None, r1) \<Rightarrow>
                   reraise_3011 (try_block env self r1 cache_key player_ids n_simulations))
         else reraise_3011 (try_block env self r cache_key player_ids n_simulations))"

subsection \<open>The worker task and its cache key\<close>

definition CACHE_KEY_PREFIX :: string where
  "CACHE_KEY_PREFIX = ''sim_task:''"

definition CACHE_TTL_SECONDS :: nat where
  "CACHE_TTL_SECONDS = 3600"

definition SIMULATION_RANDOM_SEED :: int where
  "SIMULATION_RANDOM_SEED = 42"

text \<open>\<^verbatim>\<open>generate_cache_key(prefix, *args)\<close>, its arguments being strings already; Python
  sorts strings by code point, which is the lexicographic order on \<open>string\<close>.\<close>

definition key_string :: "string list \<Rightarrow> string" where
  "key_string args = join ''_'' (sort args)"

definition generate_cache_key :: "(string \<Rightarrow> string) \<Rightarrow> string \<Rightarrow> string list \<Rightarrow> string" where
  "generate_cache_key md5 prefix args = CACHE_KEY_PREFIX @ prefix @ '':'' @ md5 (key_string args)"

text \<open>\<^verbatim>\<open>simulate_lineup_task\<close>: it opens its own \<^verbatim>\<open>RedisService\<close>, and the simulator it
  builds opens another on the same server.\<close>

definition simulate_lineup_task ::
  "'g env \<Rightarrow> redis_service \<Rightarrow> string list \<Rightarrow> int \<Rightarrow> bool \<Rightarrow> (exn + sim_result) \<times> redis_service" where
  "simulate_lineup_task env server player_ids n_simulations force_refresh =
     (let cache_key = generate_cache_key (md5_hexdigest env) ''lineup'' player_ids;
          redis = RedisService server
      in case (if force_refresh then (Inr None, redis) else redis_get redis cache_key) of
           (Inl e, r1) \<Rightarrow> (Inl e, r1)
         | (Inr (Some cached_result), r1) \<Rightarrow>
             (Inr (cached_result\<lparr>cached := Some True, timestamp := utcnow env\<rparr>), r1)
         | (Inr None, r1) \<Rightarrow>
             (case simulate_lineup_performance env
                     (MonteCarloSimulator env (Some SIMULATION_RANDOM_SEED) True)
                     (RedisService r1) player_ids n_simulations False of
                (Inl e, r2) \<Rightarrow> (Inl e, r2)
              | (Inr results, r2) \<Rightarrow>
                  (case redis_set (r2\<lparr>healthy := healthy r1\<rparr>) cache_key results CACHE_TTL_SECONDS of
                     (Inl e, r3) \<Rightarrow> (Inl e, r3)
                   | (Inr ok, r3) \<Rightarrow>
                       (Inr (results\<lparr>cached := Some False, timestamp := utcnow env\<rparr>), r3))))"

subsection \<open>A concrete environment\<close>

text \<open>An environment on a four-core machine for evaluating the definitions: arrays of up
  to a million entries, a generator that is a counter whose standard normal variates
  alternate between \<open>-2\<close> and \<open>1\<close>, every player with the history \<open>[0, 2]\<close>,
  \<^verbatim>\<open>norm.ppf\<close> the constant 1.96 and the identity standing for the digest.\<close>

definition example_env :: "nat env" where
  "example_env =
     \<lparr>cpu_count = 4,
      np_zeros_max = 1000000,
      norm_ppf = (\<lambda>p. Fin (196 / 100)),
      rng_normal = (\<lambda>g loc scale. (fadd loc (fmul scale (Fin (if even g then - 2 else 1))), Suc g)),
      default_rng = (\<lambda>seed. 0),
      utcnow = ''2024-01-01T00:00:00'',
      preprocess_player_data = (\<lambda>player_id. Inr [0, 2]),
      md5_hexdigest = (\<lambda>s. s)\<rparr>"

definition example_simulator :: "nat simulator" where
  "example_simulator = MonteCarloSimulator example_env (Some 42) True"

definition example_redis :: redis_service where
  "example_redis = \<lparr>healthy = True, server_up = True, entries = (\<lambda>key. None)\<rparr>"

definition example_redis_down :: redis_service where
  "example_redis_down = \<lparr>healthy = True, server_up = False, entries = (\<lambda>key. None)\<rparr>"

definition example_result :: sim_result where
  "example_result =
     \<lparr>expected_points = Fin 45,
      standard_deviation = Fin 9,
      ci_lower = Fin 44,
      ci_upper = Fin 46,
      ci_level = 95 / 100,
      simulations_run = 1000,
      timestamp = ''2023-12-31T23:00:00'',
      cached = None\<rparr>"

section \<open>Properties\<close>

subsection \<open>Shared lemmas\<close>

text \<open>No call of \<^verbatim>\<open>simulate_lineup_performance\<close> that computes fresh returns. The pool
  raises on the first task (error 3012, line 129); and were the outcomes pooled, the
  simulator passes the confidence level positionally (line 140), so the decorator would
  find the float 0.95 at \<^verbatim>\<open>args[1]\<close> and raise error 3010 before the estimator's body
  runs. The \<^verbatim>\<open>except\<close> of line 167 re-raises either as error 3011.\<close>

lemma ci_positional_rejected:
  "calculate_confidence_interval ppf (Positional a c) =
     Inl (SimulationError ''Invalid input data type'' 3010)"
  by (simp add: calculate_confidence_interval_def validate_input_def)

lemma parallel_simulate_raises:
  "data_chunks \<noteq> [] \<Longrightarrow>
     parallel_simulate simulation_func data_chunks =
       Inl (SimulationError ''Parallel simulation execution failed'' 3012)"
  by (cases data_chunks) (simp_all add: parallel_simulate_def starmap_def)

lemma try_block_raises:
  "\<exists>e. try_block env self r cache_key player_ids n = (Inl e, r)"
  by (auto simp: try_block_def Let_def ci_positional_rejected split: sum.splits)

lemma try_block_pool_error:
  assumes "preprocess_all (preprocess_player_data env) player_ids = Inr player_data"
    and "0 < cpu_count env"
  shows "try_block env self r cache_key player_ids n =
     (Inl (SimulationError ''Parallel simulation execution failed'' 3012), r)"
proof -
  have w: "MAX_PARALLEL_PROCESSES env \<noteq> 0"
    using assms(2) by (simp add: MAX_PARALLEL_PROCESSES_def)
  then have "map (\<lambda>chunk. (player_data, chunk))
          (simulation_chunks n (MAX_PARALLEL_PROCESSES env)) \<noteq> []"
    by (simp add: simulation_chunks_def)
  then show ?thesis
    using assms(1) w by (simp add: try_block_def parallel_simulate_raises)
qed

lemma fresh_3011:
  "reraise_3011 (try_block env self r cache_key player_ids n) =
     (Inl (SimulationError ''Failed to simulate lineup performance'' 3011), r)"
  using try_block_raises[of env self r cache_key player_ids n] by auto

lemma force_refresh_raises:
  "simulate_lineup_performance env self r player_ids n True =
     (Inl (SimulationError ''Failed to simulate lineup performance'' 3011), r)"
  by (simp add: simulate_lineup_performance_def fresh_3011)

lemma cache_miss_raises:
  assumes "healthy r" "server_up r" "entries r (lineup_cache_key player_ids) = None"
  shows "simulate_lineup_performance env self r player_ids n force_refresh =
     (Inl (SimulationError ''Failed to simulate lineup performance'' 3011), r)"
  using assms by (simp add: simulate_lineup_performance_def Let_def redis_get_def fresh_3011)










lemma simulation_chunks_sum:
  "sum_list (simulation_chunks n w) = int w * (n div int w)"
  by (simp add: simulation_chunks_def sum_list_replicate)

lemma simulation_chunks_lose_remainder:
  "0 < w \<Longrightarrow> sum_list (simulation_chunks n w) = n - n mod int w"
  by (simp add: simulation_chunks_sum minus_mod_eq_mult_div)

lemma sort_perm: "mset xs = mset ys \<Longrightarrow> sort xs = sort (ys :: string list)"
  by (rule properties_for_sort) simp_all

lemma sq_dev_nonneg: "0 \<le> sq_dev a"
  unfolding sq_dev_def by (rule sum_list_nonneg) auto

lemma pop_vs_sample:
  assumes "1 < length a"
  shows "np_std a = Fin (sqrt ((real (length a) - 1) / real (length a)) * spec_sample_std a)"
proof -
  let ?n = "real (length a)"
  have n: "1 < ?n" using assms by simp
  have "sq_dev a / ?n = ((?n - 1) / ?n) * (sq_dev a / (?n - 1))" using n by simp
  then have "sqrt (sq_dev a / ?n) = sqrt ((?n - 1) / ?n) * sqrt (sq_dev a / (?n - 1))"
    by (simp only: real_sqrt_mult)
  moreover have "a \<noteq> []" using assms by auto
  ultimately show ?thesis using assms by (simp add: np_std_def spec_sample_std_def)
qed

lemma get_fails:
  "\<not> healthy r \<or> \<not> server_up r \<Longrightarrow>
     \<exists>m r1. redis_get r key = (Inl (IntegrationError m 6000), r1)"
  by (auto simp: redis_get_def)

lemma set_fails:
  "\<not> healthy r \<or> \<not> server_up r \<Longrightarrow>
     \<exists>m r1. redis_set r key v ttl = (Inl (IntegrationError m 6000), r1)"
  by (auto simp: redis_set_def)

lemma generate_cache_key_perm:
  "mset xs = mset ys \<Longrightarrow> generate_cache_key digest prefix xs = generate_cache_key digest prefix ys"
  using sort_perm[of xs ys] by (simp add: generate_cache_key_def key_string_def)

text \<open>The formulas of the estimator, reached with the level by keyword: on a non-empty
  array and a non-negative z-score the interval contains the mean, strictly when z-score
  and standard deviation are positive.\<close>

lemma ci_contains_mean:
  assumes "a \<noteq> []" "ppf ((1 + confidence_level_of (Keyword a c)) / 2) = Fin z" "0 \<le> z"
  shows "\<exists>lo hi m s. calculate_confidence_interval ppf (Keyword a c) = Inr (Fin lo, Fin hi)
           \<and> np_mean a = Fin m \<and> np_std a = Fin s
           \<and> lo \<le> m \<and> m \<le> hi \<and> (0 < z \<and> 0 < s \<longrightarrow> lo < hi)"
proof -
  let ?n = "real (length a)"
  have n: "0 < sqrt ?n" using assms(1) by simp
  let ?s = "sqrt (sq_dev a / ?n)"
  have s0: "0 \<le> ?s"
    using sq_dev_nonneg[of a] by simp
  have m0: "0 \<le> z * (?s / sqrt ?n)" using s0 n assms(3) by simp
  have m1: "0 < z \<and> 0 < ?s \<longrightarrow> 0 < z * (?s / sqrt ?n)" using n by simp
  have "calculate_confidence_interval ppf (Keyword a c)
      = Inr (Fin (sum_list a / ?n - z * (?s / sqrt ?n)), Fin (sum_list a / ?n + z * (?s / sqrt ?n)))"
    using assms(1,2) n
    by (simp add: calculate_confidence_interval_def validate_input_def ci_body_def Let_def
         np_mean_def np_std_def np_sqrt_def)
  then show ?thesis using m0 m1 assms(1) by (simp add: np_mean_def np_std_def)
qed

lemma ex_std1: "np_std [0, 2] = Fin 1"
  by (simp add: np_std_def sq_dev_def)
lemma ex_std2: "np_std [1, 3] = Fin 1"
  by (simp add: np_std_def sq_dev_def)
lemma ex_mean1: "np_mean [0, 2] = Fin 1"
  by (simp add: np_mean_def)
lemma ex_mean2: "np_mean [1, 3] = Fin 2"
  by (simp add: np_mean_def)

lemma nat_two: "nat (2::int) = Suc (Suc 0)"
  by simp

lemma ex_trials: "fst (run_trials (rng_normal example_env) 0 [[0, 2], [1, 3], [0, 2]] (Suc (Suc 0)))
     = [3, 4]"
  by (simp add: example_env_def ex_std1 ex_std2 ex_mean1 ex_mean2)

lemma ex_run: "simulate_single_lineup (rng_normal example_env) (np_zeros_max example_env) 0
      [[0, 2], [1, 3], [0, 2]] 2 = Inr [3, 4]"
  unfolding simulate_single_lineup_def nat_two using ex_trials
  by (simp add: example_env_def)


subsection \<open>Claim C1: the split of the trial count\<close>

text \<open>Claim C1 says that the chunk sizes sum to exactly \<^verbatim>\<open>n_simulations\<close>, the remainder
  going to the first chunks, and that \<^verbatim>\<open>simulations_run\<close> is the number of aggregated
  outcomes. The code gives every process \<^verbatim>\<open>n_simulations // w\<close> trials and drops the
  remainder (\<open>simulation_chunks_lose_remainder\<close>): for 10 trials on four processes the
  chunks are \<open>[2, 2, 2, 2]\<close>, eight trials in all, and the call then raises error 3011
  instead of returning a result.\<close>

theorem chunks_drop_remainder:
  "simulation_chunks 10 (MAX_PARALLEL_PROCESSES example_env) = [2, 2, 2, 2]
   \<and> sum_list (simulation_chunks 10 (MAX_PARALLEL_PROCESSES example_env)) = 8
   \<and> fst (simulate_lineup_performance example_env example_simulator example_redis [''p1''] 10 True)
       = Inl (SimulationError ''Failed to simulate lineup performance'' 3011)"
proof -
  have w: "MAX_PARALLEL_PROCESSES example_env = 4"
    by (simp add: MAX_PARALLEL_PROCESSES_def example_env_def)
  have r: "replicate 4 (2::int) = [2, 2, 2, 2]"
    by (simp add: numeral_eq_Suc)
  show ?thesis
    by (simp add: w r simulation_chunks_def force_refresh_raises)
qed

subsection \<open>Claim C3: the empty player list\<close>

text \<open>Claim C3, as amended: for the empty player list, whatever the trial count, the cache
  state and \<^verbatim>\<open>force_refresh\<close>, \<^verbatim>\<open>simulate_lineup_performance\<close> never raises a
  \<^verbatim>\<open>ValidationError\<close>.\<close>

theorem empty_lineup_never_validation_error:
  "fst (simulate_lineup_performance env self r [] n force_refresh) \<noteq> Inl (ValidationError m c)"
  by (simp add: simulate_lineup_performance_def Let_def fresh_3011 redis_get_def
      split: option.splits)

text \<open>Claim C3 as stated fails: on the empty list with 1000 trials and an empty cache the
  call raises a \<^verbatim>\<open>SimulationError\<close> (code 3011), not a \<^verbatim>\<open>ValidationError\<close>.\<close>

theorem empty_lineup_raises_simulation_error:
  "fst (simulate_lineup_performance example_env example_simulator example_redis [] 1000 False)
     = Inl (SimulationError ''Failed to simulate lineup performance'' 3011)"
  by (simp add: simulate_lineup_performance_def example_simulator_def MonteCarloSimulator_def
      example_redis_def redis_get_def fresh_3011)

subsection \<open>Claim C4: the reported standard deviation\<close>

text \<open>Claim C4, as amended: on a non-empty outcome array of length \<open>n\<close> the standard
  deviation \<^verbatim>\<open>np.std\<close> computes is the population one (the sum of squared deviations
  divided by \<open>n\<close>); it is 0 for \<open>n = 1\<close>, and for \<open>n > 1\<close> it is the sample standard
  deviation scaled by \<open>sqrt ((n - 1) / n)\<close>.\<close>

theorem std_is_population_std:
  assumes "a \<noteq> []"
  shows "np_std a = Fin (sqrt (sq_dev a / real (length a)))
     \<and> (length a = 1 \<longrightarrow> np_std a = Fin 0)
     \<and> (1 < length a \<longrightarrow>
          np_std a = Fin (sqrt ((real (length a) - 1) / real (length a)) * spec_sample_std a))"
proof -
  have 1: "np_std a = Fin (sqrt (sq_dev a / real (length a)))"
    using assms by (simp add: np_std_def)
  have 2: "length a = 1 \<longrightarrow> np_std a = Fin 0"
  proof
    assume "length a = 1"
    then obtain x where "a = [x]" by (cases a) auto
    then show "np_std a = Fin 0" by (simp add: np_std_def sq_dev_def)
  qed
  show ?thesis using 1 2 pop_vs_sample[of a] by blast
qed

text \<open>The amended claim C4 on the arrays \<open>[7]\<close> and \<open>[0, 2]\<close>.\<close>

theorem std_is_population_std_witness:
  "np_std [7] = Fin 0
   \<and> np_std [0, 2] = Fin (sqrt (1 / 2) * spec_sample_std [0, 2])"
proof -
  have n1: "[7::real] \<noteq> []" and n2: "[0, 2::real] \<noteq> []" by simp_all
  note t1 = std_is_population_std[OF n1, THEN conjunct2, THEN conjunct1]
  note t2 = std_is_population_std[OF n2, THEN conjunct2, THEN conjunct2]
  show ?thesis using t1 t2 by simp
qed

text \<open>Claim C4 as stated fails: on \<open>[0, 2]\<close> the code computes 1, the sample standard
  deviation is \<open>sqrt 2\<close>.\<close>

theorem std_is_not_sample_std:
  "np_std [0, 2] = Fin 1 \<and> spec_sample_std [0, 2] = sqrt 2
   \<and> np_std [0, 2] \<noteq> Fin (spec_sample_std [0, 2])"
  by (simp add: np_std_def spec_sample_std_def sq_dev_def)

subsection \<open>Claim C6: cache keys of permuted lineups\<close>

text \<open>Claim C6 says that calls whose player-id lists are permutations of each other derive
  the same cache key. The key \<^verbatim>\<open>simulate_lineup_performance\<close> builds (line 109) joins the
  identifiers in the caller's order: for \<^verbatim>\<open>['a', 'b']\<close> and \<^verbatim>\<open>['b', 'a']\<close> it builds two
  different keys, where \<^verbatim>\<open>generate_cache_key\<close> of the worker task, which sorts the
  identifiers (\<open>generate_cache_key_perm\<close>), builds one.\<close>

theorem facade_key_depends_on_order:
  "lineup_cache_key [''a'', ''b''] = ''monte_carlo_sim:lineup:a_b''
   \<and> lineup_cache_key [''b'', ''a''] = ''monte_carlo_sim:lineup:b_a''
   \<and> lineup_cache_key [''a'', ''b''] \<noteq> lineup_cache_key [''b'', ''a'']
   \<and> generate_cache_key digest ''lineup'' [''a'', ''b'']
       = generate_cache_key digest ''lineup'' [''b'', ''a'']"
proof -
  have m: "mset [''a'', ''b''] = mset [''b'', ''a'']"
    by simp
  show ?thesis
    using generate_cache_key_perm[OF m, of digest "''lineup''"]
    by (simp add: lineup_cache_key_def SIMULATION_CACHE_PREFIX_def)
qed

subsection \<open>Claim C7: failures of the cache backend\<close>

text \<open>Claim C7, as amended: when the cache service is unhealthy or the server does not
  answer, a call that reads the cache raises the service's \<^verbatim>\<open>IntegrationError\<close> to its
  caller, and a cache write, standing inside the \<^verbatim>\<open>try\<close> block, is re-raised as
  \<^verbatim>\<open>SimulationError\<close> 3011. Neither failure is treated as a miss.\<close>

theorem cache_failure_not_downgraded:
  assumes "\<not> healthy r \<or> \<not> server_up r"
  shows "(cache_enabled self \<and> \<not> force_refresh \<longrightarrow>
            (\<exists>m. fst (simulate_lineup_performance env self r player_ids n force_refresh)
                   = Inl (IntegrationError m 6000)))
     \<and> fst (reraise_3011 (cache_results True r key result))
         = Inl (SimulationError ''Failed to simulate lineup performance'' 3011)"
proof -
  from get_fails[OF assms] obtain m r1 where
    g: "redis_get r (lineup_cache_key player_ids) = (Inl (IntegrationError m 6000), r1)" by blast
  from set_fails[OF assms] obtain m' r2 where
    s: "redis_set r key result SIMULATION_CACHE_TTL = (Inl (IntegrationError m' 6000), r2)" by blast
  have a: "cache_enabled self \<and> \<not> force_refresh \<longrightarrow>
            (\<exists>m. fst (simulate_lineup_performance env self r player_ids n force_refresh)
                   = Inl (IntegrationError m 6000))"
    using g by (auto simp: simulate_lineup_performance_def)
  have b: "fst (reraise_3011 (cache_results True r key result))
         = Inl (SimulationError ''Failed to simulate lineup performance'' 3011)"
    using s by (simp add: cache_results_def)
  show ?thesis using a b by blast
qed

text \<open>The amended claim C7 on a server that is down.\<close>

theorem cache_failure_not_downgraded_witness:
  "fst (simulate_lineup_performance example_env example_simulator example_redis_down
          [''p1''] 1000 False) = Inl (IntegrationError ''Redis get operation failed'' 6000)
   \<and> fst (reraise_3011 (cache_results True example_redis_down ''k'' example_result))
       = Inl (SimulationError ''Failed to simulate lineup performance'' 3011)"
proof -
  have d: "\<not> healthy example_redis_down \<or> \<not> server_up example_redis_down"
    by (simp add: example_redis_down_def)
  note t = cache_failure_not_downgraded[OF d, where self = example_simulator
      and force_refresh = False and env = example_env and player_ids = "[''p1'']"
      and n = 1000 and key = "''k''" and result = example_result]
  have g: "fst (simulate_lineup_performance example_env example_simulator example_redis_down
          [''p1''] 1000 False) = Inl (IntegrationError ''Redis get operation failed'' 6000)"
    by (simp add: simulate_lineup_performance_def example_simulator_def MonteCarloSimulator_def
        example_redis_down_def redis_get_def)
  show ?thesis using t g by blast
qed

text \<open>Claim C7 as stated fails: with the server down the caller receives the cache
  backend's error.\<close>

theorem cache_get_failure_reaches_caller:
  "fst (simulate_lineup_performance example_env example_simulator example_redis_down
          [''p1''] 1000 False) = Inl (IntegrationError ''Redis get operation failed'' 6000)"
  by (simp add: simulate_lineup_performance_def example_simulator_def MonteCarloSimulator_def
      example_redis_down_def redis_get_def)

subsection \<open>Claim C8: the empty outcome array\<close>

text \<open>Claim C8 says that the estimator raises on an empty array. Called as the
  repository's test calls it, with the level by keyword (or left to its default), it
  returns the interval \<open>(NaN, NaN)\<close> for every level and every \<^verbatim>\<open>norm.ppf\<close>.\<close>

theorem empty_outcomes_give_nan_interval:
  "calculate_confidence_interval ppf (Keyword [] c) = Inr (NaN, NaN)"
  by (simp add: calculate_confidence_interval_def validate_input_def ci_body_def
      np_mean_def np_std_def)

subsection \<open>Claim C9: non-negative trial outcomes\<close>




subsection \<open>Claim C10: the second call and the cached flag\<close>

text \<open>Claim C10 says that the second of two equal calls returns the first call's
  \<^verbatim>\<open>expected_points\<close>, marked \<^verbatim>\<open>cached = True\<close>. Starting from an empty cache with the
  backend available, the first call of \<^verbatim>\<open>simulate_lineup_performance\<close> raises error 3011
  and stores nothing, so the second call raises again; and so do two successive calls of
  \<^verbatim>\<open>simulate_lineup_task\<close>, which never reach the line that sets the flag.\<close>

theorem second_call_raises_again:
  "fst (simulate_lineup_performance example_env example_simulator example_redis
          [''p1''] 1000 False)
     = Inl (SimulationError ''Failed to simulate lineup performance'' 3011)
   \<and> entries (snd (simulate_lineup_performance example_env example_simulator example_redis
                     [''p1''] 1000 False)) (lineup_cache_key [''p1'']) = None
   \<and> fst (simulate_lineup_performance example_env example_simulator
            (snd (simulate_lineup_performance example_env example_simulator example_redis
                    [''p1''] 1000 False))
            [''p1''] 1000 False)
       = Inl (SimulationError ''Failed to simulate lineup performance'' 3011)
   \<and> fst (simulate_lineup_task example_env example_redis [''p1''] 1000 False)
       = Inl (SimulationError ''Failed to simulate lineup performance'' 3011)
   \<and> fst (simulate_lineup_task example_env
            (snd (simulate_lineup_task example_env example_redis [''p1''] 1000 False))
            [''p1''] 1000 False)
       = Inl (SimulationError ''Failed to simulate lineup performance'' 3011)"
proof -
  have h: "healthy example_redis" "server_up example_redis"
    "\<And>key. entries example_redis key = None"
    by (simp_all add: example_redis_def)
  have f: "\<And>self. simulate_lineup_performance example_env self example_redis [''p1''] 1000 False
     = (Inl (SimulationError ''Failed to simulate lineup performance'' 3011), example_redis)"
    using h by (simp add: cache_miss_raises)
  have i: "RedisService example_redis = example_redis"
    by (simp add: RedisService_def example_redis_def)
  have t: "simulate_lineup_task example_env example_redis [''p1''] 1000 False
     = (Inl (SimulationError ''Failed to simulate lineup performance'' 3011), example_redis)"
    using h by (simp add: simulate_lineup_task_def Let_def i redis_get_def f)
  show ?thesis
    using h by (simp add: f t)
qed

end
